theory Spec2Isabelle
  imports Complex_Main "HOL-Library.Multiset" "HOL-Library.Product_Lexorder"
    "HOL-Library.Monad_Syntax"
begin

section \<open>Values, exceptions and output\<close>

text \<open>
  A wall-clock time is the tuple (year, month, day, hour, minute, second); the lexicographic
  order on tuples is the chronological order. A column cell that holds no date (pandas'
  \<open>NaT\<close>) is \<open>None\<close> of \<open>datetime option\<close>. A datetime column has one dtype: it is
  timezone-free (\<open>None\<close>) or timezone-aware with a fixed offset from UTC in minutes
  (\<open>Some offset\<close>), and its cells hold the wall-clock time of that zone.
\<close>

type_synonym datetime = "nat \<times> nat \<times> nat \<times> nat \<times> nat \<times> nat"

type_synonym tz = "int option"

text \<open>
  A float of a column \<open>daily_return\<close>: a finite number, one of the two infinities, or
  \<open>NaN\<close>. Finite numbers are exact reals: rounding and overflow of float64 are outside the
  model.
\<close>

datatype fval = Fin real | PosInf | NegInf | NaN

text \<open>The Python values that can reach \<open>try_parse_custom_date\<close>.\<close>

datatype pyval = Str string | Datetime datetime | NaT | Other

text \<open>
  Exceptions derived from Python's \<open>Exception\<close>: the class and the text \<open>str(e)\<close>.
\<close>

datatype exn_class = TypeError | ValueError | AttributeError | KeyError
  | FileNotFoundError | ParserError | OtherException

type_synonym exn = "exn_class \<times> string"

text \<open>
  White space as \<open>str.strip\<close> and the pattern \<open>\\s\<close> see it, for characters up to U+00FF:
  blank, U+0009 to U+000D, U+001C to U+001F, U+0085 and U+00A0.
\<close>

definition is_space :: "char \<Rightarrow> bool" where
  "is_space c =
     (let n = (of_char c :: nat)
      in n = 32 \<or> (9 \<le> n \<and> n \<le> 13) \<or> (28 \<le> n \<and> n \<le> 31) \<or> n = 133 \<or> n = 160)"

definition digit_of :: "char \<Rightarrow> nat option" where
  "digit_of c = map_of [(CHR ''0'', 0), (CHR ''1'', 1), (CHR ''2'', 2), (CHR ''3'', 3),
     (CHR ''4'', 4), (CHR ''5'', 5), (CHR ''6'', 6), (CHR ''7'', 7), (CHR ''8'', 8),
     (CHR ''9'', 9)] c"

section \<open>The fallback parser\<close>

text \<open>
  \<open>datetime.strptime(s, "%m/%d/%Y %I:%M:%S %p")\<close> for text of characters up to U+00FF in the
  English locale.
  Each numeric directive reads two digits when they form an admissible value and one digit
  otherwise; \<open>%d\<close> also reads a blank followed by one digit; \<open>%Y\<close> reads exactly four
  digits; a blank of the format stands for one or more white-space characters; \<open>%p\<close> reads
  AM or PM in either case. The whole text must be consumed and the fields must form a date
  of the proleptic Gregorian calendar with a second below 60.
\<close>

definition field2 :: "nat \<Rightarrow> nat \<Rightarrow> nat \<Rightarrow> string \<Rightarrow> (nat \<times> string) option" where
  "field2 lo2 hi2 lo1 s =
     (case s of
        [] \<Rightarrow> None
      | a # r \<Rightarrow>
          (case digit_of a of
             None \<Rightarrow> None
           | Some x \<Rightarrow>
               (case r of
                  b # r' \<Rightarrow>
                    (case digit_of b of
                       Some y \<Rightarrow>
                         if lo2 \<le> 10 * x + y \<and> 10 * x + y \<le> hi2 then Some (10 * x + y, r')
                         else if lo1 \<le> x then Some (x, r) else None
                     | None \<Rightarrow> if lo1 \<le> x then Some (x, r) else None)
                | [] \<Rightarrow> if lo1 \<le> x then Some (x, r) else None)))"

definition day_field :: "string \<Rightarrow> (nat \<times> string) option" where
  "day_field s =
     (case field2 1 31 1 s of
        Some v \<Rightarrow> Some v
      | None \<Rightarrow>
          (case s of
             a # b # r \<Rightarrow>
               (if a = CHR '' '' then
                  (case digit_of b of Some y \<Rightarrow> if 1 \<le> y then Some (y, r) else None | None \<Rightarrow> None)
                else None)
           | _ \<Rightarrow> None))"

definition year_field :: "string \<Rightarrow> (nat \<times> string) option" where
  "year_field s =
     (case s of
        a # b # c # d # r \<Rightarrow>
          (case (digit_of a, digit_of b, digit_of c, digit_of d) of
             (Some w, Some x, Some y, Some z) \<Rightarrow> Some (1000 * w + 100 * x + 10 * y + z, r)
           | _ \<Rightarrow> None)
      | _ \<Rightarrow> None)"

definition expect :: "char \<Rightarrow> string \<Rightarrow> string option" where
  "expect c s = (case s of [] \<Rightarrow> None | a # r \<Rightarrow> if a = c then Some r else None)"

definition spaces1 :: "string \<Rightarrow> string option" where
  "spaces1 s = (case s of [] \<Rightarrow> None | a # r \<Rightarrow> if is_space a then Some (dropWhile is_space r) else None)"

definition ampm_field :: "string \<Rightarrow> (bool \<times> string) option" where
  "ampm_field s =
     (case s of
        a # b # r \<Rightarrow>
          (if b = CHR ''m'' \<or> b = CHR ''M'' then
             (if a = CHR ''a'' \<or> a = CHR ''A'' then Some (False, r)
              else if a = CHR ''p'' \<or> a = CHR ''P'' then Some (True, r)
              else None)
           else None)
      | _ \<Rightarrow> None)"

definition match_format :: "string \<Rightarrow> (nat \<times> nat \<times> nat \<times> nat \<times> nat \<times> nat \<times> bool) option" where
  "match_format s = do {
     (m, s1) \<leftarrow> field2 1 12 1 s;
     s2 \<leftarrow> expect (CHR ''/'') s1;
     (d, s3) \<leftarrow> day_field s2;
     s4 \<leftarrow> expect (CHR ''/'') s3;
     (y, s5) \<leftarrow> year_field s4;
     s6 \<leftarrow> spaces1 s5;
     (h, s7) \<leftarrow> field2 1 12 1 s6;
     s8 \<leftarrow> expect (CHR '':'') s7;
     (mi, s9) \<leftarrow> field2 0 59 0 s8;
     s10 \<leftarrow> expect (CHR '':'') s9;
     (sec, s11) \<leftarrow> field2 0 61 0 s10;
     s12 \<leftarrow> spaces1 s11;
     (pm, s13) \<leftarrow> ampm_field s12;
     if s13 = [] then Some (m, d, y, h, mi, sec, pm) else None
   }"

definition is_leap :: "nat \<Rightarrow> bool" where
  "is_leap y = (y mod 4 = 0 \<and> (0 < y mod 100 \<or> y mod 400 = 0))"

definition days_in_month :: "nat \<Rightarrow> nat \<Rightarrow> nat" where
  "days_in_month y m =
     (if m = 2 then (if is_leap y then 29 else 28)
      else if m = 4 \<or> m = 6 \<or> m = 9 \<or> m = 11 then 30 else 31)"

definition hour24 :: "nat \<Rightarrow> bool \<Rightarrow> nat" where
  "hour24 h pm = (if pm then (if h \<noteq> 12 then h + 12 else h) else (if h = 12 then 0 else h))"

definition strptime :: "pyval \<Rightarrow> exn + datetime" where
  "strptime v =
     (case v of
        Str s \<Rightarrow>
          (case match_format s of
             None \<Rightarrow> Inl (ValueError, ''time data does not match format'')
           | Some (m, d, y, h, mi, sec, pm) \<Rightarrow>
               if 1 \<le> y \<and> d \<le> days_in_month y m \<and> sec \<le> 59
               then Inr (y, m, d, hour24 h pm, mi, sec)
               else Inl (ValueError, ''value out of range''))
      | _ \<Rightarrow> Inl (TypeError, ''strptime() argument 1 must be str''))"

text \<open>
  \<open>try_parse_custom_date\<close>: the \<open>try\<close> body returns what \<open>strptime\<close> returns; the handler
  \<open>except Exception\<close> turns every exception into \<open>NaT\<close>. The result is a sum so that an
  exception leaving the function would be a value \<open>Inl\<close>.
\<close>

definition try_parse_custom_date :: "pyval \<Rightarrow> exn + pyval" where
  "try_parse_custom_date date_str =
     (case strptime date_str of
        Inr dt \<Rightarrow> Inr (Datetime dt)
      | Inl e \<Rightarrow> Inr NaT)"

section \<open>Frames, tables and the analyzer object\<close>

text \<open>
  A frame as \<open>pd.read_csv\<close> delivers it: named columns of cell texts, in file order.
  \<open>df[name]\<close> raises \<open>KeyError\<close> when the header has no such column.
\<close>

type_synonym frame = "(string \<times> string list) list"

text \<open>
  What a method call leaves behind: the lines it printed, and either the exception that it
  raised (\<open>Inl\<close>) or its result (\<open>Inr\<close>). For a method that updates the object the result
  is the updated object; after an exception the fields of the object are not described.
\<close>

type_synonym 'a result = "string list \<times> (exn + 'a)"

text \<open>A text between single quotes, as Python prints a key or a type name.\<close>

definition quoted :: "string \<Rightarrow> string" where
  "quoted s = [CHR 0x27] @ s @ [CHR 0x27]"

definition column :: "frame \<Rightarrow> string \<Rightarrow> exn + string list" where
  "column f name =
     (case map_of f name of
        None \<Rightarrow> Inl (KeyError, quoted name)
      | Some c \<Rightarrow> Inr c)"

text \<open>\<open>df[mask]\<close>: the rows whose mask entry is true, in every column.\<close>

definition filter_rows :: "bool list \<Rightarrow> frame \<Rightarrow> frame" where
  "filter_rows keep f = map (\<lambda>(n, c). (n, map snd (filter fst (zip keep c)))) f"

text \<open>\<open>df.columns.str.lower()\<close>, on ASCII letters.\<close>

definition lower_char :: "char \<Rightarrow> char" where
  "lower_char c =
     (case map_of (zip ''ABCDEFGHIJKLMNOPQRSTUVWXYZ'' ''abcdefghijklmnopqrstuvwxyz'') c of
        Some l \<Rightarrow> l
      | None \<Rightarrow> c)"

definition lower_columns :: "frame \<Rightarrow> frame" where
  "lower_columns f = map (\<lambda>(n, c). (map lower_char n, c)) f"

text \<open>The decimal text of a number, as an f-string prints \<open>len(...)\<close>.\<close>

fun str_nat :: "nat \<Rightarrow> string" where
  "str_nat n =
     (if n < 10 then [''0123456789'' ! n]
      else str_nat (n div 10) @ [''0123456789'' ! (n mod 10)])"

declare str_nat.simps [simp del]

text \<open>
  The tables the analyzer holds after a successful load. The column \<open>date\<close> has its cells
  and the timezone of its dtype. A column that a later stage adds (\<open>sentiment\<close>,
  \<open>daily_return\<close>) or that the file may lack (\<open>headline\<close>, \<open>close\<close>) is optional; reading an
  absent column raises \<open>KeyError\<close>. Closing prices are finite numbers.
\<close>

record news_table =
  n_date :: "datetime option list"
  n_tz :: tz
  n_headline :: "string list option"
  n_sentiment :: "real list option"

record stock_table =
  s_date :: "datetime option list"
  s_tz :: tz
  s_close :: "real list option"
  s_daily_return :: "fval list option"

type_synonym merged_row = "datetime \<times> real \<times> fval"

record analyzer =
  news_path :: string
  stock_path :: string
  stock_symbol :: string
  news_df :: "news_table option"
  stock_df :: "stock_table option"
  merged_df :: "merged_row list option"

text \<open>
  What the program takes from outside and from its libraries: the file system behind
  \<open>pd.read_csv\<close>; the general parser \<open>pd.to_datetime(..., errors="coerce")\<close>, which either
  raises (as it does on texts of several UTC offsets) or returns a column, that is a
  timezone and one cell per text, \<open>None\<close> for a text it cannot read; the number read from a
  cell of \<open>close\<close>; the polarity \<open>TextBlob(text).sentiment.polarity\<close>; and the index order that
  \<open>sort_values("date")\<close> computes with its default sorting kind.
\<close>

record env =
  read_csv :: "string \<Rightarrow> exn + frame"
  to_datetime :: "string list \<Rightarrow> exn + (tz \<times> datetime option list)"
  to_float :: "string \<Rightarrow> real"
  polarity :: "string \<Rightarrow> real"
  argsort :: "datetime option list \<Rightarrow> nat list"

text \<open>
  \<open>try: body except Exception as e: print(f"{prefix}{e}"); raise\<close>, the shape of every
  method of \<open>SentimentReturnAnalyzer\<close>: when the body raises, the line is printed after what
  the body printed and the same exception leaves the method.
\<close>

definition guard :: "string \<Rightarrow> 'a result \<Rightarrow> 'a result" where
  "guard prefix r =
     (case r of
        (out, Inl e) \<Rightarrow> (out @ [prefix @ snd e], Inl e)
      | (out, Inr v) \<Rightarrow> (out, Inr v))"

section \<open>load_data: cleaning and normalizing the news dates\<close>

text \<open>\<open>.str.strip()\<close>: white space removed at both ends.\<close>

definition strip :: "string \<Rightarrow> string" where
  "strip s = rev (dropWhile is_space (rev (dropWhile is_space s)))"

text \<open>\<open>.str.replace(r"\s{2,}", " ", regex=True)\<close>: a run of two or more white-space
  characters becomes one blank; a single white-space character stays as it is.\<close>

function collapse_ws :: "string \<Rightarrow> string" where
  "collapse_ws [] = []"
| "collapse_ws [c] = [c]"
| "collapse_ws (c # d # cs) =
     (if is_space c \<and> is_space d then CHR '' '' # collapse_ws (dropWhile is_space cs)
      else c # collapse_ws (d # cs))"
  by pat_completeness auto
termination
  by (relation "measure length") (auto simp: less_Suc_eq_le intro: le_trans [OF length_dropWhile_le])

text \<open>Lines 41 to 46: the cleaned text of a cell of the column \<open>date\<close>.\<close>

definition clean_date :: "string \<Rightarrow> string" where
  "clean_date s = collapse_ws (strip s)"

text \<open>
  The Python value of a cell of a parsed column, as \<open>news_df.at[i, "date"]\<close> returns it, and
  the cell that stores a value returned by the fallback parser.
\<close>

definition cell_value :: "datetime option \<Rightarrow> pyval" where
  "cell_value c = (case c of None \<Rightarrow> NaT | Some d \<Rightarrow> Datetime d)"

definition to_cell :: "pyval \<Rightarrow> datetime option" where
  "to_cell v = (case v of Datetime d \<Rightarrow> Some d | _ \<Rightarrow> None)"

text \<open>The loop of lines 53 to 55: each call may in principle raise, which ends the loop.\<close>

fun reparse_all :: "pyval list \<Rightarrow> exn + pyval list" where
  "reparse_all [] = Inr []"
| "reparse_all (v # vs) =
     (case try_parse_custom_date v of
        Inl e \<Rightarrow> Inl e
      | Inr parsed \<Rightarrow>
          (case reparse_all vs of Inl e \<Rightarrow> Inl e | Inr rest \<Rightarrow> Inr (parsed # rest)))"

text \<open>\<open>df.loc[mask, "date"] = series\<close>: the rows selected by the mask take the values of
  the series, in order; the other rows keep theirs.\<close>

fun assign_masked :: "bool list \<Rightarrow> 'a list \<Rightarrow> 'a list \<Rightarrow> 'a list" where
  "assign_masked (m # ms) (c # cs) vs =
     (if m then (case vs of v # vs' \<Rightarrow> v # assign_masked ms cs vs' | [] \<Rightarrow> c # cs)
      else c # assign_masked ms cs vs)"
| "assign_masked _ cs _ = cs"

text \<open>
  Lines 41 to 64. An exception of the general parser ends the step. Otherwise the column
  \<open>date\<close> is overwritten with the parsed column before the fallback runs, so the value
  handed to \<open>try_parse_custom_date\<close> is the cell of the parsed column
  (\<open>news_df.at[i, "date"]\<close>), not the text of the file. Only when some cell is \<open>NaT\<close> does
  \<open>.dt.tz_localize(None)\<close> run: it drops the timezone of the column and keeps the wall-clock
  times. A column without \<open>NaT\<close> keeps its timezone.
\<close>

definition normalize_news_dates :: "env \<Rightarrow> string list \<Rightarrow> exn + (tz \<times> datetime option list)" where
  "normalize_news_dates ev raw =
     (let cleaned = map clean_date raw
      in (case to_datetime ev cleaned of
            Inl e \<Rightarrow> Inl e
          | Inr (zone, parsed) \<Rightarrow>
              (let invalid_mask = map (\<lambda>c. c = None) parsed
               in if True \<in> set invalid_mask then
                    (case reparse_all (map cell_value (filter (\<lambda>c. c = None) parsed)) of
                       Inl e \<Rightarrow> Inl e
                     | Inr reparsed_values \<Rightarrow>
                         Inr (None, assign_masked invalid_mask parsed (map to_cell reparsed_values)))
                  else Inr (zone, parsed))))"

text \<open>
  The \<open>try\<close> body of \<open>load_data\<close>, lines 30 to 71: both files are read, the column names are
  put in lower case, the news rows of the stock symbol are kept, the news dates are
  normalized, the price dates are parsed and the number of news dates left unparsed is
  printed.
\<close>

definition load_data_body :: "env \<Rightarrow> analyzer \<Rightarrow> analyzer result" where
  "load_data_body ev a =
     (case read_csv ev (news_path a) of
        Inl e \<Rightarrow> ([], Inl e)
      | Inr news0 \<Rightarrow>
     (case read_csv ev (stock_path a) of
        Inl e \<Rightarrow> ([], Inl e)
      | Inr stock0 \<Rightarrow>
     (let news1 = lower_columns news0; stock1 = lower_columns stock0 in
     (case column news1 ''stock'' of
        Inl e \<Rightarrow> ([], Inl e)
      | Inr st \<Rightarrow>
     (let news2 = filter_rows (map (\<lambda>s. s = stock_symbol a) st) news1 in
     (case column news2 ''date'' of
        Inl e \<Rightarrow> ([], Inl e)
      | Inr raw \<Rightarrow>
     (case normalize_news_dates ev raw of
        Inl e \<Rightarrow> ([], Inl e)
      | Inr (zone, dates) \<Rightarrow>
     (case column stock1 ''date'' of
        Inl e \<Rightarrow> ([], Inl e)
      | Inr sraw \<Rightarrow>
     (case to_datetime ev sraw of
        Inl e \<Rightarrow> ([], Inl e)
      | Inr (szone, sdates) \<Rightarrow>
          ([''[Debug] Unparsed news dates after fallback parsing: ''
              @ str_nat (length (filter (\<lambda>c. c = None) dates))],
           Inr (a\<lparr>news_df := Some \<lparr>n_date = dates, n_tz = zone,
                                     n_headline = map_of news2 ''headline'', n_sentiment = None\<rparr>,
                   stock_df := Some \<lparr>s_date = sdates, s_tz = szone,
                                      s_close = map_option (map (to_float ev)) (map_of stock1 ''close''),
                                      s_daily_return = None\<rparr>\<rparr>)))))))))))"

definition load_data :: "env \<Rightarrow> analyzer \<Rightarrow> analyzer result" where
  "load_data ev a = guard ''[Error] Failed to load and process data: '' (load_data_body ev a)"

section \<open>analyze_sentiment and aggregate_sentiment\<close>

text \<open>Lines 89 to 92: the polarity of every headline becomes the column \<open>sentiment\<close>.\<close>

definition analyze_sentiment_body :: "env \<Rightarrow> analyzer \<Rightarrow> analyzer result" where
  "analyze_sentiment_body ev a =
     (case news_df a of
        None \<Rightarrow> ([], Inl (TypeError, quoted ''NoneType'' @ '' object is not subscriptable''))
      | Some t \<Rightarrow>
          (case n_headline t of
             None \<Rightarrow> ([], Inl (KeyError, quoted ''headline''))
           | Some hs \<Rightarrow>
               ([], Inr (a\<lparr>news_df := Some (t\<lparr>n_sentiment := Some (map (polarity ev) hs)\<rparr>)\<rparr>))))"

definition analyze_sentiment :: "env \<Rightarrow> analyzer \<Rightarrow> analyzer result" where
  "analyze_sentiment ev a =
     guard ''[Error] Sentiment analysis failed: '' (analyze_sentiment_body ev a)"

definition mean :: "real list \<Rightarrow> real" where
  "mean xs = sum_list xs / real (length xs)"

text \<open>
  \<open>groupby("date")["sentiment"].mean().reset_index()\<close>: the keys are the distinct values of
  the column \<open>date\<close> other than \<open>NaT\<close>, in ascending order; each key carries the mean of the
  sentiments of the rows with that value. The key column keeps the timezone of the column
  \<open>date\<close>.
\<close>

definition group_keys :: "(datetime option \<times> real) list \<Rightarrow> datetime list" where
  "group_keys rows = sort (remdups (concat (map (\<lambda>(k, s). case k of None \<Rightarrow> [] | Some d \<Rightarrow> [d]) rows)))"

definition group_mean :: "(datetime option \<times> real) list \<Rightarrow> (datetime \<times> real) list" where
  "group_mean rows =
     map (\<lambda>d. (d, mean (map snd (filter (\<lambda>(k, s). k = Some d) rows)))) (group_keys rows)"

text \<open>Line 101. The result is the timezone of the key column and the rows.\<close>

definition aggregate_sentiment_body :: "analyzer \<Rightarrow> (tz \<times> (datetime \<times> real) list) result" where
  "aggregate_sentiment_body a =
     (case news_df a of
        None \<Rightarrow> ([], Inl (AttributeError, quoted ''NoneType'' @ '' object has no attribute '' @ quoted ''groupby''))
      | Some t \<Rightarrow>
          (case n_sentiment t of
             None \<Rightarrow> ([], Inl (KeyError, quoted ''Column not found: sentiment''))
           | Some ss \<Rightarrow> ([], Inr (n_tz t, group_mean (zip (n_date t) ss)))))"

definition aggregate_sentiment :: "analyzer \<Rightarrow> (tz \<times> (datetime \<times> real) list) result" where
  "aggregate_sentiment a =
     guard ''[Error] Failed to aggregate sentiment: '' (aggregate_sentiment_body a)"

section \<open>calculate_returns\<close>

text \<open>
  Float division and float subtraction of one, on exact numbers. A division by zero does not
  raise: a positive number over zero is \<open>inf\<close>, a negative one \<open>-inf\<close>, zero over zero
  \<open>NaN\<close>; subtracting one leaves the infinities and \<open>NaN\<close> as they are.
\<close>

definition float_div :: "real \<Rightarrow> real \<Rightarrow> fval" where
  "float_div x y =
     (if y = 0 then (if 0 < x then PosInf else if x < 0 then NegInf else NaN)
      else Fin (x / y))"

definition minus_one :: "fval \<Rightarrow> fval" where
  "minus_one v = (case v of Fin x \<Rightarrow> Fin (x - 1) | _ \<Rightarrow> v)"

text \<open>
  \<open>pct_change\<close>, which pandas computes as \<open>close / close.shift(1) - 1\<close>: the first row holds
  \<open>NaN\<close>, every later row the quotient of its close by the close before it, less one.
\<close>

definition pct :: "real \<Rightarrow> real \<Rightarrow> fval" where
  "pct prev cur = minus_one (float_div cur prev)"

fun pct_change :: "real list \<Rightarrow> fval list" where
  "pct_change [] = []"
| "pct_change (c # cs) = NaN # map2 pct (c # cs) cs"

text \<open>The rows of a column taken in the order of an index list.\<close>

definition take_rows :: "nat list \<Rightarrow> 'a list \<Rightarrow> 'a list" where
  "take_rows ix xs = map (\<lambda>i. xs ! i) ix"



text \<open>A stable index order: rows of equal date keep their order.\<close>

definition date_key :: "datetime option \<Rightarrow> bool \<times> datetime" where
  "date_key c = (case c of None \<Rightarrow> (True, (0, 0, 0, 0, 0, 0)) | Some d \<Rightarrow> (False, d))"

definition stable_argsort :: "datetime option list \<Rightarrow> nat list" where
  "stable_argsort ds = map snd (sort_key (\<lambda>(d, i). date_key d) (zip ds [0..<length ds]))"

text \<open>
  Lines 109 and 110: the table is reordered in place by \<open>sort_values("date")\<close>, then the
  column \<open>daily_return\<close> is set to \<open>pct_change\<close> of the column \<open>close\<close>.
\<close>

definition calculate_returns_body :: "env \<Rightarrow> analyzer \<Rightarrow> analyzer result" where
  "calculate_returns_body ev a =
     (case stock_df a of
        None \<Rightarrow> ([], Inl (AttributeError, quoted ''NoneType'' @ '' object has no attribute '' @ quoted ''sort_values''))
      | Some t \<Rightarrow>
          (let ix = argsort ev (s_date t);
               sorted_t = \<lparr>s_date = take_rows ix (s_date t), s_tz = s_tz t,
                           s_close = map_option (take_rows ix) (s_close t),
                           s_daily_return = map_option (take_rows ix) (s_daily_return t)\<rparr>
           in (case s_close sorted_t of
                 None \<Rightarrow> ([], Inl (KeyError, quoted ''close''))
               | Some cs \<Rightarrow>
                   ([], Inr (a\<lparr>stock_df := Some (sorted_t\<lparr>s_daily_return := Some (pct_change cs)\<rparr>)\<rparr>)))))"

definition calculate_returns :: "env \<Rightarrow> analyzer \<Rightarrow> analyzer result" where
  "calculate_returns ev a =
     guard ''[Error] Failed to compute daily returns: '' (calculate_returns_body ev a)"

section \<open>merge_data\<close>

text \<open>\<open>.dt.normalize()\<close>: the time of day is set to midnight; the timezone stays.\<close>

definition dt_normalize :: "datetime \<Rightarrow> datetime" where
  "dt_normalize t = (case t of (y, m, d, _) \<Rightarrow> (y, m, d, 0, 0, 0))"


text \<open>
  The instant of a wall-clock time in a zone, in seconds since 1970-01-01 00:00:00 UTC: the
  days of the proleptic Gregorian calendar, the time of day, less the offset of the zone.
\<close>

definition days_from_civil :: "nat \<Rightarrow> nat \<Rightarrow> nat \<Rightarrow> int" where
  "days_from_civil y m d =
     (let y' = (if m \<le> 2 then int y - 1 else int y);
          era = y' div 400;
          yoe = y' - era * 400;
          mp = (if 2 < m then int m - 3 else int m + 9);
          doy = (153 * mp + 2) div 5 + int d - 1;
          doe = yoe * 365 + yoe div 4 - yoe div 100 + doy
      in era * 146097 + doe - 719468)"

definition instant :: "int \<Rightarrow> datetime \<Rightarrow> int" where
  "instant offset t =
     (case t of (y, m, d, h, mi, s) \<Rightarrow>
        ((days_from_civil y m d * 24 + int h) * 60 + int mi) * 60 + int s - 60 * offset)"

text \<open>
  When two date keys pair in the join. Keys of two timezone-free columns, and keys of two
  columns of one zone, pair when their wall-clock times are equal; keys of columns of two
  zones pair when their instants are equal.
\<close>

definition keys_pair :: "tz \<Rightarrow> tz \<Rightarrow> datetime \<Rightarrow> datetime \<Rightarrow> bool" where
  "keys_pair zl zr a b =
     (case (zl, zr) of
        (Some x, Some y) \<Rightarrow> if x = y then a = b else instant x a = instant y b
      | _ \<Rightarrow> a = b)"

text \<open>
  \<open>pd.merge(left, right, on="date", how="inner")\<close>: for each row of the left table, in
  order, one result row for each row of the right table whose date pairs with its date. A
  right row without date pairs with no left row, since the left table has none without.
\<close>

definition inner_merge ::
  "(datetime \<Rightarrow> datetime \<Rightarrow> bool) \<Rightarrow> (datetime \<times> real) list \<Rightarrow> (datetime option \<times> fval) list
     \<Rightarrow> merged_row list" where
  "inner_merge pair left right =
     concat (map (\<lambda>(d, s). map (\<lambda>(k, r). (d, s, r))
        (filter (\<lambda>(k, r). case k of None \<Rightarrow> False | Some x \<Rightarrow> pair d x) right)) left)"

text \<open>
  The name of a datetime dtype and the text of the \<open>ValueError\<close> that \<open>pd.merge\<close> raises when
  one key column is timezone-aware and the other is not.
\<close>

definition two_digits :: "nat \<Rightarrow> string" where
  "two_digits n = [''0123456789'' ! (n div 10 mod 10), ''0123456789'' ! (n mod 10)]"

definition zone_name :: "int \<Rightarrow> string" where
  "zone_name offset =
     (if offset = 0 then ''UTC''
      else ''UTC'' @ (if offset < 0 then ''-'' else ''+'')
        @ two_digits (nat \<bar>offset\<bar> div 60) @ '':'' @ two_digits (nat \<bar>offset\<bar> mod 60))"

definition dtype_name :: "tz \<Rightarrow> string" where
  "dtype_name z =
     (case z of None \<Rightarrow> ''datetime64[ns]'' | Some offset \<Rightarrow> ''datetime64[ns, '' @ zone_name offset @ '']'')"

definition merge_dtype_message :: "tz \<Rightarrow> tz \<Rightarrow> string" where
  "merge_dtype_message zl zr =
     ''You are trying to merge on '' @ dtype_name zl @ '' and '' @ dtype_name zr
       @ '' columns for key '' @ quoted ''date''
       @ ''. If you wish to proceed you should use pd.concat''"

definition warning_empty :: string where
  "warning_empty = ''[Warning] Merged DataFrame is empty. Check date alignment and input data.''"

definition info_merged :: "nat \<Rightarrow> string" where
  "info_merged n = ''[Info] Successfully merged data. Records: '' @ str_nat n"

text \<open>
  Lines 118 to 133: the sentiment is aggregated, the dates of both tables are normalized (the
  price table in place), the two columns of the price table are selected, and the tables are
  joined: \<open>pd.merge\<close> raises when exactly one of the two date columns is timezone-aware.
  Then one line is printed: the warning when the join is empty, the success line otherwise.
\<close>

definition merge_data_body :: "analyzer \<Rightarrow> analyzer result" where
  "merge_data_body a =
     (case aggregate_sentiment a of
        (out, Inl e) \<Rightarrow> (out, Inl e)
      | (out, Inr (zone, daily_sentiment)) \<Rightarrow>
          (case stock_df a of
             None \<Rightarrow> (out, Inl (TypeError, quoted ''NoneType'' @ '' object is not subscriptable''))
           | Some t \<Rightarrow>
               (let t' = t\<lparr>s_date := map (map_option dt_normalize) (s_date t)\<rparr>;
                    daily = map (\<lambda>(d, s). (dt_normalize d, s)) daily_sentiment
                in (case s_daily_return t' of
                      None \<Rightarrow>
                        (out, Inl (KeyError,
                           [CHR 0x22] @ ''['' @ quoted ''daily_return'' @ ''] not in index'' @ [CHR 0x22]))
                    | Some rs \<Rightarrow>
                        if (zone = None) \<noteq> (s_tz t' = None)
                        then (out, Inl (ValueError, merge_dtype_message zone (s_tz t')))
                        else
                          (let merged = inner_merge (keys_pair zone (s_tz t')) daily (zip (s_date t') rs)
                           in (out @ [if merged = [] then warning_empty
                                      else info_merged (length merged)],
                               Inr (a\<lparr>stock_df := Some t', merged_df := Some merged\<rparr>)))))))"

definition merge_data :: "analyzer \<Rightarrow> analyzer result" where
  "merge_data a =
     guard ''[Error] Failed to merge sentiment and stock return data: '' (merge_data_body a)"

section \<open>EdaAnalysis.load_data\<close>

record eda =
  input_path :: string
  selected_stocks :: "string list option"
  df :: frame

text \<open>\<open>df.shape\<close> and a list of texts, as \<open>print\<close> shows them.\<close>

definition shape_str :: "frame \<Rightarrow> string" where
  "shape_str f =
     ''('' @ str_nat (case f of [] \<Rightarrow> 0 | (n, c) # _ \<Rightarrow> length c) @ '', '' @ str_nat (length f) @ '')''"

fun join_comma :: "string list \<Rightarrow> string" where
  "join_comma [] = []"
| "join_comma [x] = x"
| "join_comma (x # y # zs) = x @ '', '' @ join_comma (y # zs)"

definition repr_list :: "string list \<Rightarrow> string" where
  "repr_list xs = ''['' @ join_comma (map quoted xs) @ '']''"

text \<open>
  The \<open>try\<close> body of \<open>EdaAnalysis.load_data\<close>: what it printed, the object as the body left
  it, and the exception that ended it, if any. \<open>self.df\<close> is assigned the whole file before
  the filter runs.
\<close>

definition eda_load_body :: "env \<Rightarrow> eda \<Rightarrow> string list \<times> eda \<times> exn option" where
  "eda_load_body ev e =
     (case read_csv ev (input_path e) of
        Inl x \<Rightarrow> ([], e, Some x)
      | Inr f \<Rightarrow>
          (let e1 = e\<lparr>df := f\<rparr>;
               out1 = [''File loaded successfully. Shape: '' @ shape_str f]
           in (case column f ''stock'' of
                 Inl x \<Rightarrow> (out1, e1, Some x)
               | Inr st \<Rightarrow>
                   (case selected_stocks e of
                      None \<Rightarrow>
                        (out1, e1,
                         Some (TypeError,
                           ''only list-like objects are allowed to be passed to isin(), you passed a ''
                             @ [CHR 0x60] @ ''NoneType'' @ [CHR 0x60]))
                    | Some sel \<Rightarrow>
                        (let f' = filter_rows (map (\<lambda>s. s \<in> set sel) st) f
                         in (out1 @ [''Filtered DataFrame shape of '' @ repr_list sel @ '': '' @ shape_str f'],
                             e1\<lparr>df := f'\<rparr>, None))))))"

text \<open>
  The three handlers print and fall through: the method returns normally in every case. The
  result is a sum so that an exception leaving the method would be a value \<open>Inl\<close>.
\<close>

definition eda_load_data :: "env \<Rightarrow> eda \<Rightarrow> eda result" where
  "eda_load_data ev e =
     (case eda_load_body ev e of
        (out, e', None) \<Rightarrow> (out, Inr e')
      | (out, e', Some (cls, msg)) \<Rightarrow>
          (if cls = FileNotFoundError then (out @ [''File not found. Check the relative path.''], Inr e')
           else if cls = ParserError then (out @ [''File found but not a valid CSV.''], Inr e')
           else (out @ [''An unexpected error occurred: '' @ msg], Inr e')))"

section \<open>Example inputs\<close>

text \<open>
  A stand-in for the general parser on the examples: it reads the form \<open>YYYY-MM-DD\<close> and
  nothing else, as the general parser does on a column whose format it took from a first
  cell of that form, and returns a timezone-free column.
\<close>

definition iso_date :: "string \<Rightarrow> datetime option" where
  "iso_date s =
     (case s of
        [y1, y2, y3, y4, h1, m1, m2, h2, d1, d2] \<Rightarrow>
          (if h1 = CHR ''-'' \<and> h2 = CHR ''-'' then
             (case (year_field [y1, y2, y3, y4], field2 0 99 0 [m1, m2], field2 0 99 0 [d1, d2]) of
                (Some (y, []), Some (m, []), Some (d, [])) \<Rightarrow> Some (y, m, d, 0, 0, 0)
              | _ \<Rightarrow> None)
           else None)
      | _ \<Rightarrow> None)"

definition example_files :: "string \<Rightarrow> exn + frame" where
  "example_files path =
     (if path = ''news.csv'' then
        Inr [(''Stock'', [''AAPL'', ''TSLA'', ''AAPL'']),
             (''Date'', [''2021-01-14'', ''2021-01-14'', ''01/15/2021  09:30:00 AM '']),
             (''Headline'', [''up'', ''down'', ''flat''])]
      else if path = ''prices.csv'' then
        Inr [(''Date'', [''2021-01-14'', ''2021-01-15'']), (''Close'', [''100'', ''110''])]
      else if path = ''noschema.csv'' then
        Inr [(''Ticker'', [''AAPL'']), (''Date'', [''2021-01-14''])]
      else Inl (FileNotFoundError, ''[Errno 2] No such file or directory''))"

definition example_float :: "string \<Rightarrow> real" where
  "example_float s = real (foldl (\<lambda>n c. 10 * n + (case digit_of c of Some v \<Rightarrow> v | None \<Rightarrow> 0)) 0 s)"

definition example_env :: env where
  "example_env = \<lparr>read_csv = example_files, to_datetime = (\<lambda>xs. Inr (None, map iso_date xs)),
     to_float = example_float, polarity = (\<lambda>s. 0), argsort = stable_argsort\<rparr>"


definition example_analyzer :: "string \<Rightarrow> string \<Rightarrow> analyzer" where
  "example_analyzer news stock = \<lparr>news_path = news, stock_path = stock, stock_symbol = ''AAPL'',
     news_df = None, stock_df = None, merged_df = None\<rparr>"

definition example_state :: "news_table option \<Rightarrow> stock_table option \<Rightarrow> analyzer" where
  "example_state nt st = \<lparr>news_path = ''news.csv'', stock_path = ''prices.csv'',
     stock_symbol = ''AAPL'', news_df = nt, stock_df = st, merged_df = None\<rparr>"

definition example_scored :: analyzer where
  "example_scored = example_state
     (Some \<lparr>n_date = [Some (2021, 1, 15, 0, 0, 0), None, Some (2021, 1, 15, 0, 0, 0),
                       Some (2021, 1, 14, 0, 0, 0)],
             n_tz = None, n_headline = Some [''a'', ''b'', ''c'', ''d''],
             n_sentiment = Some [0.4, 0.9, -0.2, 0.3]\<rparr>) None"





definition example_merge_state ::
  "tz \<Rightarrow> datetime option list \<Rightarrow> real list \<Rightarrow> tz \<Rightarrow> datetime option list \<Rightarrow> fval list \<Rightarrow> analyzer" where
  "example_merge_state nz nd ss sz sd rs =
     example_state (Some \<lparr>n_date = nd, n_tz = nz, n_headline = None, n_sentiment = Some ss\<rparr>)
       (Some \<lparr>s_date = sd, s_tz = sz, s_close = None, s_daily_return = Some rs\<rparr>)"





definition example_same_day :: analyzer where
  "example_same_day = example_merge_state
     None [Some (2021, 1, 15, 9, 30, 0), Some (2021, 1, 15, 12, 0, 0), Some (2021, 1, 15, 14, 0, 0)]
     [0.4, 0.1, - 0.2]
     None [Some (2021, 1, 14, 0, 0, 0), Some (2021, 1, 15, 0, 0, 0)] [NaN, Fin 0.1]"

definition example_unscored :: analyzer where
  "example_unscored = example_state
     (Some \<lparr>n_date = [Some (2021, 1, 14, 0, 0, 0)], n_tz = None, n_headline = Some [''up''],
             n_sentiment = None\<rparr>) None"

definition example_env_mixed :: env where
  "example_env_mixed = example_env\<lparr>to_datetime := (\<lambda>xs. Inl (ValueError, ''Mixed timezones detected''))\<rparr>"

definition example_eda :: "string \<Rightarrow> eda" where
  "example_eda path = \<lparr>input_path = path, selected_stocks = Some [''AAPL''], df = []\<rparr>"

section \<open>Properties of the fallback parser and of the date normalizer\<close>

lemmas parser_defs = strptime_def match_format_def field2_def day_field_def year_field_def
  expect_def spaces1_def ampm_field_def digit_of_def is_space_def days_in_month_def
  is_leap_def hour24_def

lemma strptime_example:
  "strptime (Str ''01/15/2021 09:30:00 AM'') = Inr (2021, 1, 15, 9, 30, 0)"
  by (simp add: parser_defs)

lemma strptime_iso_text:
  "strptime (Str ''2021-01-15'') = Inl (ValueError, ''time data does not match format'')"
  by (simp add: parser_defs)

lemma strptime_not_str:
  "strptime NaT = Inl (TypeError, ''strptime() argument 1 must be str'')"
  "strptime Other = Inl (TypeError, ''strptime() argument 1 must be str'')"
  "strptime (Datetime d) = Inl (TypeError, ''strptime() argument 1 must be str'')"
  by (simp_all add: strptime_def)

text \<open>
  Claim C10. Whatever value is passed (a text in the format, any other text, \<open>NaT\<close>, or any
  other object), \<open>try_parse_custom_date\<close> returns normally and never raises: it returns the
  timezone-free datetime that \<open>strptime\<close> read when the value is a text in the format
  \<open>%m/%d/%Y %I:%M:%S %p\<close>, and \<open>NaT\<close> whenever \<open>strptime\<close> raises.
\<close>

theorem try_parse_custom_date_total:
  "(\<exists>r. try_parse_custom_date v = Inr r \<and> (r = NaT \<or> (\<exists>dt. r = Datetime dt)))
   \<and> (\<forall>dt. strptime v = Inr dt \<longrightarrow> try_parse_custom_date v = Inr (Datetime dt))
   \<and> (\<forall>e. strptime v = Inl e \<longrightarrow> try_parse_custom_date v = Inr NaT)"
  by (auto simp: try_parse_custom_date_def split: sum.splits)

theorem try_parse_custom_date_total_witness:
  "try_parse_custom_date (Str ''01/15/2021 09:30:00 AM'') = Inr (Datetime (2021, 1, 15, 9, 30, 0))
   \<and> try_parse_custom_date (Str ''2021-01-15'') = Inr NaT
   \<and> try_parse_custom_date NaT = Inr NaT"
  using try_parse_custom_date_total [of "Str ''01/15/2021 09:30:00 AM''"]
    try_parse_custom_date_total [of "Str ''2021-01-15''"]
    try_parse_custom_date_total [of NaT]
  by (simp add: strptime_example strptime_iso_text strptime_not_str)

lemma reparse_all_NaT:
  "reparse_all (map cell_value (filter (\<lambda>c. c = None) xs))
     = Inr (replicate (length (filter (\<lambda>c. c = None) xs)) NaT)"
  by (induction xs) (simp_all add: cell_value_def try_parse_custom_date_def strptime_def)

lemma assign_masked_None:
  "assign_masked (map (\<lambda>c. c = None) xs) xs (replicate k None) = xs"
proof (induction xs arbitrary: k)
  case Nil
  then show ?case by simp
next
  case (Cons x xs)
  show ?case
  proof (cases k)
    case 0
    then show ?thesis using Cons [of 0] by simp
  next
    case (Suc j)
    then show ?thesis using Cons [of j] Cons [of "Suc j"] by simp
  qed
qed

lemma normalize_news_dates_eq:
  "to_datetime ev (map clean_date raw) = Inr (zone, parsed) \<Longrightarrow>
   normalize_news_dates ev raw = Inr (if None \<in> set parsed then None else zone, parsed)"
  by (auto simp: normalize_news_dates_def Let_def reparse_all_NaT assign_masked_None to_cell_def)

lemma normalize_news_dates_raises:
  "to_datetime ev (map clean_date raw) = Inl e \<Longrightarrow> normalize_news_dates ev raw = Inl e"
  by (simp add: normalize_news_dates_def)

text \<open>
  Claim C1 (the code does not do this). Take a record whose cleaned text matches the fallback
  format, so that \<open>strptime\<close> reads a datetime \<open>dt\<close> from it, and whose general parse
  failed. The fallback is handed the cell of the already parsed column, which is \<open>NaT\<close>, so
  the date of the record stays \<open>NaT\<close> instead of becoming \<open>dt\<close>.
\<close>

theorem fallback_never_recovers:
  assumes "strptime (Str (clean_date (raw ! i))) = Inr dt"
    and "i < length raw"
    and "to_datetime ev (map clean_date raw) = Inr (zone, parsed)"
    and "parsed ! i = None"
  shows "\<exists>zone' out. normalize_news_dates ev raw = Inr (zone', out)
     \<and> out ! i = None \<and> out ! i \<noteq> Some dt"
  using assms by (simp add: normalize_news_dates_eq)

lemma clean_date_example:
  "clean_date ''01/15/2021  09:30:00 AM '' = ''01/15/2021 09:30:00 AM''"
  by (simp add: clean_date_def strip_def is_space_def)

lemma iso_date_examples:
  "iso_date ''2021-01-14'' = Some (2021, 1, 14, 0, 0, 0)"
  "iso_date ''01/15/2021 09:30:00 AM'' = None"
  by (simp_all add: iso_date_def year_field_def field2_def digit_of_def)

theorem fallback_never_recovers_witness:
  "strptime (Str (clean_date ([''2021-01-14'', ''01/15/2021  09:30:00 AM ''] ! 1)))
      = Inr (2021, 1, 15, 9, 30, 0)
   \<and> to_datetime example_env (map clean_date [''2021-01-14'', ''01/15/2021  09:30:00 AM ''])
      = Inr (None, [Some (2021, 1, 14, 0, 0, 0), None])
   \<and> normalize_news_dates example_env [''2021-01-14'', ''01/15/2021  09:30:00 AM '']
      = Inr (None, [Some (2021, 1, 14, 0, 0, 0), None])"
proof -
  let ?raw = "[''2021-01-14'', ''01/15/2021  09:30:00 AM '']"
  let ?parsed = "[Some (2021, 1, 14, 0, 0, 0), None] :: datetime option list"
  have c: "map clean_date ?raw = [''2021-01-14'', ''01/15/2021 09:30:00 AM'']"
    by (simp add: clean_date_def strip_def is_space_def)
  have h1: "strptime (Str (clean_date (?raw ! 1))) = Inr (2021, 1, 15, 9, 30, 0)"
    by (simp add: clean_date_example strptime_example)
  have h2: "(1::nat) < length ?raw" by simp
  have h3: "to_datetime example_env (map clean_date ?raw) = Inr (None, ?parsed)"
    unfolding c by (simp add: example_env_def iso_date_examples)
  have h4: "?parsed ! 1 = None" by simp
  from fallback_never_recovers [OF h1 h2 h3 h4]
  obtain zone' out where o: "normalize_news_dates example_env ?raw = Inr (zone', out)"
    by blast
  have "normalize_news_dates example_env ?raw = Inr (None, ?parsed)"
    using normalize_news_dates_eq [OF h3] by simp
  with o have "zone' = None" "out = ?parsed"
    by simp_all
  with o have r: "normalize_news_dates example_env ?raw = Inr (None, ?parsed)"
    by simp
  show ?thesis
    by (intro conjI) (rule h1, rule h3, rule r)
qed

section \<open>Properties of aggregate_sentiment\<close>

lemma set_group_keys: "set (group_keys rows) = {d. Some d \<in> fst ` set rows}"
  by (auto simp: group_keys_def split: option.splits prod.splits) force

lemma distinct_group_keys: "distinct (group_keys rows)"
  by (simp add: group_keys_def)

lemma sorted_group_keys: "sorted (group_keys rows)"
  by (simp add: group_keys_def)

lemma map_fst_group_mean: "map fst (group_mean rows) = group_keys rows"
  by (simp add: group_mean_def comp_def)

lemma group_mean_entry:
  "(d, m) \<in> set (group_mean rows) \<Longrightarrow> m = mean (map snd (filter (\<lambda>(k, s). k = Some d) rows))"
  by (auto simp: group_mean_def)

lemma aggregate_sentiment_ok:
  "news_df a = Some t \<Longrightarrow> n_sentiment t = Some ss \<Longrightarrow>
   aggregate_sentiment a = ([], Inr (n_tz t, group_mean (zip (n_date t) ss)))"
  by (simp add: aggregate_sentiment_def aggregate_sentiment_body_def guard_def)

text \<open>
  Claim C7. For news records whose dates carry no time of day (each cell is a calendar date
  or \<open>NaT\<close>), \<open>aggregate_sentiment\<close> returns one row for each distinct calendar date that
  occurs, and no other row; the sentiment of the row is the sum of the sentiments of the
  records of that date divided by their number. A record whose date is \<open>NaT\<close> enters no
  group. (The grouping key is the stored cell: records of one day that differ in the time of
  day would form separate groups, which is why the dates are taken normalized.)
\<close>

theorem aggregate_sentiment_by_date:
  assumes "news_df a = Some t" and "n_sentiment t = Some ss"
    and "length ss = length (n_date t)"
    and "\<forall>c \<in> set (n_date t). map_option dt_normalize c = c"
  shows "\<exists>ds. aggregate_sentiment a = ([], Inr (n_tz t, ds))
     \<and> distinct (map (dt_normalize \<circ> fst) ds)
     \<and> set (map fst ds) = {d. Some d \<in> set (n_date t)}
     \<and> (\<forall>(d, m) \<in> set ds.
          m = sum_list (map snd (filter (\<lambda>(k, s). k = Some d) (zip (n_date t) ss)))
              / real (length (filter (\<lambda>(k, s). k = Some d) (zip (n_date t) ss))))"
proof -
  let ?rows = "zip (n_date t) ss"
  let ?ds = "group_mean ?rows"
  have fst_rows: "fst ` set ?rows = set (n_date t)"
    using assms(3) by (metis map_fst_zip set_map)
  have keys: "set (map fst ?ds) = {d. Some d \<in> set (n_date t)}"
    by (simp only: map_fst_group_mean set_group_keys fst_rows)
  have "dt_normalize d = d" if "d \<in> set (map fst ?ds)" for d
    using that assms(4) keys by force
  then have "map (dt_normalize \<circ> fst) ?ds = map fst ?ds"
    by (simp add: map_idI comp_def)
  then have dist: "distinct (map (dt_normalize \<circ> fst) ?ds)"
    by (simp only: map_fst_group_mean distinct_group_keys)
  have means: "\<forall>(d, m) \<in> set ?ds.
          m = sum_list (map snd (filter (\<lambda>(k, s). k = Some d) ?rows))
              / real (length (filter (\<lambda>(k, s). k = Some d) ?rows))"
    using group_mean_entry [of _ _ ?rows] by (auto simp: mean_def)
  show ?thesis
    using aggregate_sentiment_ok [OF assms(1,2)] dist keys means by blast
qed

lemma example_group_mean:
  "group_mean (zip [Some (2021, 1, 15, 0, 0, 0), None, Some (2021, 1, 15, 0, 0, 0),
                     Some (2021, 1, 14, 0, 0, 0)] [0.4, 0.9, -0.2, 0.3 :: real])
   = [((2021, 1, 14, 0, 0, 0), 0.3), ((2021, 1, 15, 0, 0, 0), 0.1)]"
  by (simp add: group_mean_def group_keys_def mean_def)

theorem aggregate_sentiment_by_date_witness:
  "aggregate_sentiment example_scored
     = ([], Inr (None, [((2021, 1, 14, 0, 0, 0), 0.3), ((2021, 1, 15, 0, 0, 0), 0.1)]))"
proof -
  let ?t = "\<lparr>n_date = [Some (2021, 1, 15, 0, 0, 0), None, Some (2021, 1, 15, 0, 0, 0),
                        Some (2021, 1, 14, 0, 0, 0)],
              n_tz = None, n_headline = Some [''a'', ''b'', ''c'', ''d''],
              n_sentiment = Some [0.4, 0.9, -0.2, 0.3 :: real]\<rparr>"
  have h1: "news_df example_scored = Some ?t"
    by (simp add: example_scored_def example_state_def)
  have h2: "n_sentiment ?t = Some [0.4, 0.9, -0.2, 0.3]" by simp
  have h3: "length [0.4, 0.9, -0.2, 0.3 :: real] = length (n_date ?t)" by simp
  have h4: "\<forall>c \<in> set (n_date ?t). map_option dt_normalize c = c"
    by (simp add: dt_normalize_def)
  from aggregate_sentiment_by_date [OF h1 h2 h3 h4]
  obtain ds where ds: "aggregate_sentiment example_scored = ([], Inr (n_tz ?t, ds))"
    by blast
  moreover have "aggregate_sentiment example_scored
      = ([], Inr (None, [((2021, 1, 14, 0, 0, 0), 0.3), ((2021, 1, 15, 0, 0, 0), 0.1)]))"
    using aggregate_sentiment_ok [OF h1 h2] example_group_mean by simp
  ultimately have "ds = [((2021, 1, 14, 0, 0, 0), 0.3), ((2021, 1, 15, 0, 0, 0), 0.1)]"
    by simp
  with ds show ?thesis by simp
qed

section \<open>Properties of calculate_returns\<close>




lemma pct_formula: "pct prev cur = float_div (cur - prev) prev"
  by (simp add: pct_def float_div_def minus_one_def diff_divide_distrib)

lemma pct_finite: "prev \<noteq> 0 \<Longrightarrow> pct prev cur = Fin ((cur - prev) / prev)"
  by (simp add: pct_formula float_div_def)






















section \<open>Properties of merge_data\<close>



lemma keys_pair_same: "keys_pair z z a b = (a = b)"
  by (cases z) (simp_all add: keys_pair_def)

lemma inner_merge_same:
  "inner_merge (keys_pair z z) L R =
     concat (map (\<lambda>(d, s). map (\<lambda>(k, r). (d, s, r)) (filter (\<lambda>(k, r). k = Some d) R)) L)"
proof -
  have "(\<lambda>(k, r). case k of None \<Rightarrow> False | Some x \<Rightarrow> keys_pair z z d x)
      = (\<lambda>(k :: datetime option, r :: fval). k = Some d)" for d
    by (auto simp: fun_eq_iff keys_pair_same split: option.splits)
  then show ?thesis
    by (simp add: inner_merge_def)
qed


lemma merge_data_ok:
  assumes "news_df a = Some nt" and "n_sentiment nt = Some ss"
    and "stock_df a = Some st" and "s_daily_return st = Some rs"
    and "n_tz nt = s_tz st"
  shows "merge_data a =
     (let m = inner_merge (keys_pair (s_tz st) (s_tz st))
                (map (\<lambda>(d, s). (dt_normalize d, s)) (group_mean (zip (n_date nt) ss)))
                (zip (map (map_option dt_normalize) (s_date st)) rs)
      in ([if m = [] then warning_empty else info_merged (length m)],
          Inr (a\<lparr>stock_df := Some (st\<lparr>s_date := map (map_option dt_normalize) (s_date st)\<rparr>),
                  merged_df := Some m\<rparr>)))"
  using assms
  by (simp add: merge_data_def merge_data_body_def aggregate_sentiment_ok guard_def Let_def)





lemma length_filter_key_le_1:
  "distinct (filter (\<lambda>k. k \<noteq> None) (map fst R)) \<Longrightarrow>
   length (filter (\<lambda>(k, r). k = Some c) R) \<le> 1"
proof (induction R)
  case Nil
  then show ?case by simp
next
  case (Cons x R)
  show ?case
  proof (cases "fst x = Some c")
    case True
    then have "Some c \<notin> set (map fst R)"
      using Cons.prems by auto
    then have "filter (\<lambda>(k, r). k = Some c) R = []"
      by (auto simp: filter_empty_conv image_iff)
    with True show ?thesis by (simp add: case_prod_unfold)
  next
    case False
    then have "length (filter (\<lambda>(k, r). k = Some c) (x # R))
        = length (filter (\<lambda>(k, r). k = Some c) R)"
      by (simp add: case_prod_unfold)
    moreover have "distinct (filter (\<lambda>k. k \<noteq> None) (map fst R))"
      using Cons.prems by (simp split: if_splits)
    ultimately show ?thesis using Cons.IH by simp
  qed
qed

lemma length_inner_merge_le_left:
  "distinct (filter (\<lambda>k. k \<noteq> None) (map fst R)) \<Longrightarrow>
   length (inner_merge (keys_pair z z) L R) \<le> length L"
proof (induction L)
  case Nil
  then show ?case by (simp add: inner_merge_same)
next
  case (Cons x L)
  obtain d s where x: "x = (d, s)" by (cases x)
  have "length (inner_merge (keys_pair z z) (x # L) R)
      = length (filter (\<lambda>(k, r). k = Some d) R) + length (inner_merge (keys_pair z z) L R)"
    by (simp add: inner_merge_same x)
  also have "\<dots> \<le> 1 + length L"
    using length_filter_key_le_1 [OF Cons.prems, of d] Cons.IH [OF Cons.prems]
    by linarith
  finally show ?case by simp
qed

lemma length_inner_merge_filter:
  "distinct (map fst L) \<Longrightarrow>
   length (inner_merge (keys_pair z z) L R)
     = length (filter (\<lambda>(k, r). k \<in> Some ` fst ` set L) R)"
proof (induction L)
  case Nil
  then show ?case by (simp add: inner_merge_same)
next
  case (Cons x L)
  obtain d s where x: "x = (d, s)" by (cases x)
  have d: "d \<notin> fst ` set L" and dist: "distinct (map fst L)"
    using Cons.prems by (auto simp: x)
  have "length (inner_merge (keys_pair z z) (x # L) R)
      = length (filter (\<lambda>(k, r). k = Some d) R) + length (inner_merge (keys_pair z z) L R)"
    by (simp add: inner_merge_same x)
  also have "\<dots> = length (filter (\<lambda>(k, r). k = Some d) R)
      + length (filter (\<lambda>(k, r). k \<in> Some ` fst ` set L) R)"
    by (simp only: Cons.IH [OF dist])
  also have "\<dots> = length (filter (\<lambda>(k, r). k \<in> Some ` fst ` set (x # L)) R)"
    using d by (induction R) (auto simp: x)
  finally show ?case .
qed

lemma length_inner_merge_le_right:
  "distinct (map fst L) \<Longrightarrow> length (inner_merge (keys_pair z z) L R) \<le> length R"
  by (simp add: length_inner_merge_filter)

text \<open>
  With one sentiment row for each calendar date, as the description of \<open>aggregate_sentiment\<close>
  promises, and one bar for each calendar date, the merged table is no larger than the
  smaller of the two tables.
\<close>

lemma merge_data_count_unique_dates:
  assumes "news_df a = Some nt" and "n_sentiment nt = Some ss"
    and "stock_df a = Some st" and "s_daily_return st = Some rs"
    and "length rs = length (s_date st)" and "n_tz nt = s_tz st"
    and "distinct (map (dt_normalize \<circ> fst) (group_mean (zip (n_date nt) ss)))"
    and "distinct (filter (\<lambda>k. k \<noteq> None) (map (map_option dt_normalize) (s_date st)))"
  shows "\<exists>out a' m. merge_data a = (out, Inr a') \<and> merged_df a' = Some m
     \<and> length m \<le> min (length (group_mean (zip (n_date nt) ss))) (length rs)"
proof -
  let ?ds = "group_mean (zip (n_date nt) ss)"
  let ?L = "map (\<lambda>(d, s). (dt_normalize d, s)) ?ds"
  let ?R = "zip (map (map_option dt_normalize) (s_date st)) rs"
  let ?m = "inner_merge (keys_pair (s_tz st) (s_tz st)) ?L ?R"
  have run: "merge_data a = ([if ?m = [] then warning_empty else info_merged (length ?m)],
          Inr (a\<lparr>stock_df := Some (st\<lparr>s_date := map (map_option dt_normalize) (s_date st)\<rparr>),
                  merged_df := Some ?m\<rparr>))"
    using merge_data_ok [OF assms(1-4,6)] by (simp add: Let_def)
  have fstR: "map fst ?R = map (map_option dt_normalize) (s_date st)"
    using assms(5) by (simp add: map_fst_zip)
  have fstL: "map fst ?L = map (dt_normalize \<circ> fst) ?ds"
    by (simp add: comp_def case_prod_unfold)
  have left: "length ?m \<le> length ?ds"
    using length_inner_merge_le_left [of ?R "s_tz st" ?L] assms(8) by (simp add: fstR)
  have "length ?R = length rs"
    using assms(5) by simp
  moreover have "distinct (map fst ?L)"
    using assms(7) by (simp only: fstL)
  ultimately have right: "length ?m \<le> length rs"
    using length_inner_merge_le_right [of ?L "s_tz st" ?R] by simp
  from run left right show ?thesis by simp
qed



lemmas merge_eval = merge_data_def merge_data_body_def aggregate_sentiment_def
  aggregate_sentiment_body_def guard_def group_mean_def group_keys_def mean_def inner_merge_def
  keys_pair_def dt_normalize_def example_merge_state_def example_state_def info_merged_def
  str_nat.simps Let_def



lemma example_same_day_merge:
  "merge_data example_same_day
     = ([''[Info] Successfully merged data. Records: 3''],
        Inr (example_same_day\<lparr>merged_df :=
               Some [((2021, 1, 15, 0, 0, 0), 0.4, Fin 0.1), ((2021, 1, 15, 0, 0, 0), 0.1, Fin 0.1),
                     ((2021, 1, 15, 0, 0, 0), - 0.2, Fin 0.1)]\<rparr>))"
  "aggregate_sentiment example_same_day
     = ([], Inr (None, [((2021, 1, 15, 9, 30, 0), 0.4), ((2021, 1, 15, 12, 0, 0), 0.1),
                        ((2021, 1, 15, 14, 0, 0), - 0.2)]))"
  by (simp_all add: merge_eval example_same_day_def)



text \<open>
  Claim C4 does not hold of the code. Three news records of one day at different times of
  day, and a price table of two bars with one bar for each date: \<open>aggregate_sentiment\<close>
  groups by the stored timestamp and returns three rows for the day, against its own
  description "Averages sentiment scores per day". After the dates are normalized all three
  rows join the single bar of that day, so the merged table has three rows, more than the
  smaller of the two tables, which has two.
\<close>

theorem merge_data_count_exceeds:
  "aggregate_sentiment example_same_day
     = ([], Inr (None, [((2021, 1, 15, 9, 30, 0), 0.4), ((2021, 1, 15, 12, 0, 0), 0.1),
                        ((2021, 1, 15, 14, 0, 0), - 0.2)]))
   \<and> map_option s_date (stock_df example_same_day)
     = Some [Some (2021, 1, 14, 0, 0, 0), Some (2021, 1, 15, 0, 0, 0)]
   \<and> map_option s_daily_return (stock_df example_same_day) = Some (Some [NaN, Fin 0.1])
   \<and> merge_data example_same_day
     = ([''[Info] Successfully merged data. Records: 3''],
        Inr (example_same_day\<lparr>merged_df :=
               Some [((2021, 1, 15, 0, 0, 0), 0.4, Fin 0.1), ((2021, 1, 15, 0, 0, 0), 0.1, Fin 0.1),
                     ((2021, 1, 15, 0, 0, 0), - 0.2, Fin 0.1)]\<rparr>))
   \<and> \<not> length [((2021, 1, 15, 0, 0, 0), 0.4 :: real, Fin 0.1), ((2021, 1, 15, 0, 0, 0), 0.1, Fin 0.1),
                  ((2021, 1, 15, 0, 0, 0), - 0.2, Fin 0.1)]
        \<le> min (length [((2021, 1, 15, 9, 30, 0), 0.4 :: real), ((2021, 1, 15, 12, 0, 0), 0.1),
                          ((2021, 1, 15, 14, 0, 0), - 0.2)])
              (length [NaN, Fin 0.1])"
  by (simp add: example_same_day_merge)
    (simp add: example_same_day_def example_merge_state_def example_state_def)



section \<open>How the stages treat exceptions\<close>

lemma guard_raises: "guard p (out, Inl x) = (out @ [p @ snd x], Inl x)"
  by (simp add: guard_def)

lemma load_data_news_missing:
  "read_csv ev (news_path a) = Inl x \<Longrightarrow>
   load_data ev a = ([''[Error] Failed to load and process data: '' @ snd x], Inl x)"
  by (simp add: load_data_def load_data_body_def guard_def)

lemma load_data_stock_missing:
  "read_csv ev (news_path a) = Inr news \<Longrightarrow> read_csv ev (stock_path a) = Inl x \<Longrightarrow>
   load_data ev a = ([''[Error] Failed to load and process data: '' @ snd x], Inl x)"
  by (simp add: load_data_def load_data_body_def guard_def)

lemma load_data_no_stock_column:
  "read_csv ev (news_path a) = Inr news \<Longrightarrow> read_csv ev (stock_path a) = Inr prices \<Longrightarrow>
   map_of (lower_columns news) ''stock'' = None \<Longrightarrow>
   load_data ev a = ([''[Error] Failed to load and process data: '' @ quoted ''stock''],
                     Inl (KeyError, quoted ''stock''))"
  by (simp add: load_data_def load_data_body_def guard_def column_def Let_def)

lemma load_data_parser_raises:
  "read_csv ev (news_path a) = Inr news \<Longrightarrow> read_csv ev (stock_path a) = Inr prices \<Longrightarrow>
   column (lower_columns news) ''stock'' = Inr st \<Longrightarrow>
   column (filter_rows (map (\<lambda>s. s = stock_symbol a) st) (lower_columns news)) ''date'' = Inr raw \<Longrightarrow>
   to_datetime ev (map clean_date raw) = Inl x \<Longrightarrow>
   load_data ev a = ([''[Error] Failed to load and process data: '' @ snd x], Inl x)"
  by (simp add: load_data_def load_data_body_def guard_def Let_def normalize_news_dates_raises)

lemma load_data_tolerates:
  assumes "read_csv ev (news_path a) = Inr news" and "read_csv ev (stock_path a) = Inr prices"
    and "column (lower_columns news) ''stock'' = Inr st"
    and "column (filter_rows (map (\<lambda>s. s = stock_symbol a) st) (lower_columns news)) ''date'' = Inr raw"
    and "column (lower_columns prices) ''date'' = Inr sraw"
    and "to_datetime ev (map clean_date raw) = Inr (zone, dates)"
    and "to_datetime ev sraw = Inr (szone, sdates)"
  shows "\<exists>a' t. load_data ev a =
       ([''[Debug] Unparsed news dates after fallback parsing: ''
          @ str_nat (length (filter (\<lambda>c. c = None) dates))], Inr a')
     \<and> news_df a' = Some t \<and> n_date t = dates"
  using assms
  by (simp add: load_data_def load_data_body_def guard_def Let_def normalize_news_dates_eq)

lemma eda_load_data_returns: "\<exists>out e'. eda_load_data ev e = (out, Inr e')"
  by (auto simp: eda_load_data_def split: prod.splits option.splits)

lemma eda_load_data_swallows:
  "read_csv ev (input_path e) = Inl (cls, msg) \<Longrightarrow>
   eda_load_data ev e =
     ([if cls = FileNotFoundError then ''File not found. Check the relative path.''
       else if cls = ParserError then ''File found but not a valid CSV.''
       else ''An unexpected error occurred: '' @ msg], Inr e)"
  by (simp add: eda_load_data_def eda_load_body_def)

lemma analyze_sentiment_unloaded:
  "news_df a = None \<Longrightarrow>
   analyze_sentiment ev a =
     ([''[Error] Sentiment analysis failed: '' @ quoted ''NoneType'' @ '' object is not subscriptable''],
      Inl (TypeError, quoted ''NoneType'' @ '' object is not subscriptable''))"
  by (simp add: analyze_sentiment_def analyze_sentiment_body_def guard_def)

lemma aggregate_sentiment_unscored:
  "news_df a = Some t \<Longrightarrow> n_sentiment t = None \<Longrightarrow>
   aggregate_sentiment a =
     ([''[Error] Failed to aggregate sentiment: '' @ quoted ''Column not found: sentiment''],
      Inl (KeyError, quoted ''Column not found: sentiment''))"
  by (simp add: aggregate_sentiment_def aggregate_sentiment_body_def guard_def)

lemma calculate_returns_unloaded:
  "stock_df a = None \<Longrightarrow>
   calculate_returns ev a =
     ([''[Error] Failed to compute daily returns: ''
         @ quoted ''NoneType'' @ '' object has no attribute '' @ quoted ''sort_values''],
      Inl (AttributeError, quoted ''NoneType'' @ '' object has no attribute '' @ quoted ''sort_values''))"
  by (simp add: calculate_returns_def calculate_returns_body_def guard_def)

lemma merge_data_unscored:
  "news_df a = Some t \<Longrightarrow> n_sentiment t = None \<Longrightarrow>
   merge_data a =
     ([''[Error] Failed to aggregate sentiment: '' @ quoted ''Column not found: sentiment'',
       ''[Error] Failed to merge sentiment and stock return data: ''
         @ quoted ''Column not found: sentiment''],
      Inl (KeyError, quoted ''Column not found: sentiment''))"
  by (simp add: merge_data_def merge_data_body_def aggregate_sentiment_unscored guard_def)

text \<open>
  Claim C9, amended. Each of the five stages of \<open>SentimentReturnAnalyzer\<close> modelled here
  (\<open>load_data\<close>, \<open>analyze_sentiment\<close>, \<open>aggregate_sentiment\<close>, \<open>calculate_returns\<close>,
  \<open>merge_data\<close>) prints, whenever its body raises, its own prefix followed by the text of
  the exception, after what the body printed, and passes the same exception on. So do in
  particular: \<open>load_data\<close> on a file that cannot be read, on a news file without the column
  \<open>stock\<close> and on an exception of the general date parser; \<open>analyze_sentiment\<close> and
  \<open>calculate_returns\<close> before the load; \<open>aggregate_sentiment\<close> and \<open>merge_data\<close> before
  the sentiment column exists. Records whose date no parser reads do not end \<open>load_data\<close>:
  they are counted in the debug line. \<open>EdaAnalysis.load_data\<close> is different: it never
  passes an exception on; when the file cannot be read it prints one line and returns with
  the object unchanged.
\<close>

theorem analyzer_stages_reraise:
  "(load_data_body ev a = (out, Inl x) \<longrightarrow>
      load_data ev a = (out @ [''[Error] Failed to load and process data: '' @ snd x], Inl x))
   \<and> (analyze_sentiment_body ev a = (out, Inl x) \<longrightarrow>
      analyze_sentiment ev a = (out @ [''[Error] Sentiment analysis failed: '' @ snd x], Inl x))
   \<and> (aggregate_sentiment_body a = (out, Inl x) \<longrightarrow>
      aggregate_sentiment a = (out @ [''[Error] Failed to aggregate sentiment: '' @ snd x], Inl x))
   \<and> (calculate_returns_body ev a = (out, Inl x) \<longrightarrow>
      calculate_returns ev a = (out @ [''[Error] Failed to compute daily returns: '' @ snd x], Inl x))
   \<and> (merge_data_body a = (out, Inl x) \<longrightarrow>
      merge_data a
        = (out @ [''[Error] Failed to merge sentiment and stock return data: '' @ snd x], Inl x))
   \<and> (read_csv ev (news_path a) = Inl x \<longrightarrow>
      load_data ev a = ([''[Error] Failed to load and process data: '' @ snd x], Inl x))
   \<and> (read_csv ev (news_path a) = Inr news \<and> read_csv ev (stock_path a) = Inl x \<longrightarrow>
      load_data ev a = ([''[Error] Failed to load and process data: '' @ snd x], Inl x))
   \<and> (read_csv ev (news_path a) = Inr news \<and> read_csv ev (stock_path a) = Inr prices
        \<and> map_of (lower_columns news) ''stock'' = None \<longrightarrow>
      load_data ev a = ([''[Error] Failed to load and process data: '' @ quoted ''stock''],
                        Inl (KeyError, quoted ''stock'')))
   \<and> (read_csv ev (news_path a) = Inr news \<and> read_csv ev (stock_path a) = Inr prices
        \<and> column (lower_columns news) ''stock'' = Inr st
        \<and> column (filter_rows (map (\<lambda>s. s = stock_symbol a) st) (lower_columns news)) ''date'' = Inr raw
        \<and> to_datetime ev (map clean_date raw) = Inl x \<longrightarrow>
      load_data ev a = ([''[Error] Failed to load and process data: '' @ snd x], Inl x))
   \<and> (news_df a = None \<longrightarrow>
      analyze_sentiment ev a =
        ([''[Error] Sentiment analysis failed: '' @ quoted ''NoneType'' @ '' object is not subscriptable''],
         Inl (TypeError, quoted ''NoneType'' @ '' object is not subscriptable'')))
   \<and> (news_df a = Some t \<and> n_sentiment t = None \<longrightarrow>
      aggregate_sentiment a =
        ([''[Error] Failed to aggregate sentiment: '' @ quoted ''Column not found: sentiment''],
         Inl (KeyError, quoted ''Column not found: sentiment'')))
   \<and> (stock_df a = None \<longrightarrow>
      calculate_returns ev a =
        ([''[Error] Failed to compute daily returns: ''
            @ quoted ''NoneType'' @ '' object has no attribute '' @ quoted ''sort_values''],
         Inl (AttributeError, quoted ''NoneType'' @ '' object has no attribute '' @ quoted ''sort_values'')))
   \<and> (news_df a = Some t \<and> n_sentiment t = None \<longrightarrow>
      merge_data a =
        ([''[Error] Failed to aggregate sentiment: '' @ quoted ''Column not found: sentiment'',
          ''[Error] Failed to merge sentiment and stock return data: ''
            @ quoted ''Column not found: sentiment''],
         Inl (KeyError, quoted ''Column not found: sentiment'')))
   \<and> (read_csv ev (news_path a) = Inr news \<and> read_csv ev (stock_path a) = Inr prices
        \<and> column (lower_columns news) ''stock'' = Inr st
        \<and> column (filter_rows (map (\<lambda>s. s = stock_symbol a) st) (lower_columns news)) ''date'' = Inr raw
        \<and> column (lower_columns prices) ''date'' = Inr sraw
        \<and> to_datetime ev (map clean_date raw) = Inr (zone, dates)
        \<and> to_datetime ev sraw = Inr (szone, sdates) \<longrightarrow>
      (\<exists>a' t'. load_data ev a =
         ([''[Debug] Unparsed news dates after fallback parsing: ''
            @ str_nat (length (filter (\<lambda>c. c = None) dates))], Inr a')
         \<and> news_df a' = Some t' \<and> n_date t' = dates))
   \<and> (\<exists>out' e'. eda_load_data ev e = (out', Inr e'))
   \<and> (read_csv ev (input_path e) = Inl x \<longrightarrow>
      (\<exists>line. eda_load_data ev e = ([line], Inr e)))"
proof (intro conjI impI)
  show "\<exists>out' e'. eda_load_data ev e = (out', Inr e')"
    by (rule eda_load_data_returns)
next
  assume "read_csv ev (input_path e) = Inl x"
  then show "\<exists>line. eda_load_data ev e = ([line], Inr e)"
    using eda_load_data_swallows [of ev e "fst x" "snd x"] by simp
next
  assume "read_csv ev (news_path a) = Inl x"
  then show "load_data ev a = ([''[Error] Failed to load and process data: '' @ snd x], Inl x)"
    by (rule load_data_news_missing)
next
  assume "read_csv ev (news_path a) = Inr news \<and> read_csv ev (stock_path a) = Inl x"
  then show "load_data ev a = ([''[Error] Failed to load and process data: '' @ snd x], Inl x)"
    using load_data_stock_missing by blast
next
  assume "read_csv ev (news_path a) = Inr news \<and> read_csv ev (stock_path a) = Inr prices
        \<and> map_of (lower_columns news) ''stock'' = None"
  then show "load_data ev a = ([''[Error] Failed to load and process data: '' @ quoted ''stock''],
                        Inl (KeyError, quoted ''stock''))"
    using load_data_no_stock_column by blast
next
  assume "read_csv ev (news_path a) = Inr news \<and> read_csv ev (stock_path a) = Inr prices
        \<and> column (lower_columns news) ''stock'' = Inr st
        \<and> column (filter_rows (map (\<lambda>s. s = stock_symbol a) st) (lower_columns news)) ''date'' = Inr raw
        \<and> to_datetime ev (map clean_date raw) = Inl x"
  then show "load_data ev a = ([''[Error] Failed to load and process data: '' @ snd x], Inl x)"
    using load_data_parser_raises by blast
next
  assume "read_csv ev (news_path a) = Inr news \<and> read_csv ev (stock_path a) = Inr prices
        \<and> column (lower_columns news) ''stock'' = Inr st
        \<and> column (filter_rows (map (\<lambda>s. s = stock_symbol a) st) (lower_columns news)) ''date'' = Inr raw
        \<and> column (lower_columns prices) ''date'' = Inr sraw
        \<and> to_datetime ev (map clean_date raw) = Inr (zone, dates)
        \<and> to_datetime ev sraw = Inr (szone, sdates)"
  then show "\<exists>a' t'. load_data ev a =
         ([''[Debug] Unparsed news dates after fallback parsing: ''
            @ str_nat (length (filter (\<lambda>c. c = None) dates))], Inr a')
         \<and> news_df a' = Some t' \<and> n_date t' = dates"
    using load_data_tolerates by blast
next
  assume "news_df a = None"
  then show "analyze_sentiment ev a =
        ([''[Error] Sentiment analysis failed: '' @ quoted ''NoneType'' @ '' object is not subscriptable''],
         Inl (TypeError, quoted ''NoneType'' @ '' object is not subscriptable''))"
    by (rule analyze_sentiment_unloaded)
next
  assume "news_df a = Some t \<and> n_sentiment t = None"
  then show "aggregate_sentiment a =
        ([''[Error] Failed to aggregate sentiment: '' @ quoted ''Column not found: sentiment''],
         Inl (KeyError, quoted ''Column not found: sentiment''))"
    using aggregate_sentiment_unscored by blast
next
  assume "stock_df a = None"
  then show "calculate_returns ev a =
        ([''[Error] Failed to compute daily returns: ''
            @ quoted ''NoneType'' @ '' object has no attribute '' @ quoted ''sort_values''],
         Inl (AttributeError, quoted ''NoneType'' @ '' object has no attribute '' @ quoted ''sort_values''))"
    by (rule calculate_returns_unloaded)
next
  assume "news_df a = Some t \<and> n_sentiment t = None"
  then show "merge_data a =
        ([''[Error] Failed to aggregate sentiment: '' @ quoted ''Column not found: sentiment'',
          ''[Error] Failed to merge sentiment and stock return data: ''
            @ quoted ''Column not found: sentiment''],
         Inl (KeyError, quoted ''Column not found: sentiment''))"
    using merge_data_unscored by blast
qed (simp_all add: load_data_def analyze_sentiment_def aggregate_sentiment_def
      calculate_returns_def merge_data_def guard_raises)

lemma example_load_ok:
  "load_data example_env (example_analyzer ''news.csv'' ''prices.csv'')
    = ([''[Debug] Unparsed news dates after fallback parsing: 1''],
       Inr ((example_analyzer ''news.csv'' ''prices.csv'')
         \<lparr>news_df := Some \<lparr>n_date = [Some (2021, 1, 14, 0, 0, 0), None], n_tz = None,
                            n_headline = Some [''up'', ''flat''], n_sentiment = None\<rparr>,
          stock_df := Some \<lparr>s_date = [Some (2021, 1, 14, 0, 0, 0), Some (2021, 1, 15, 0, 0, 0)],
                             s_tz = None, s_close = Some [100, 110], s_daily_return = None\<rparr>\<rparr>))"
  by (simp add: load_data_def load_data_body_def guard_def example_env_def example_files_def
      example_analyzer_def lower_columns_def lower_char_def column_def filter_rows_def
      normalize_news_dates_eq clean_date_def strip_def is_space_def iso_date_def year_field_def
      field2_def digit_of_def str_nat.simps example_float_def)

theorem analyzer_stages_reraise_witness:
  "load_data example_env (example_analyzer ''missing.csv'' ''prices.csv'')
    = ([''[Error] Failed to load and process data: [Errno 2] No such file or directory''],
       Inl (FileNotFoundError, ''[Errno 2] No such file or directory''))
   \<and> load_data example_env (example_analyzer ''noschema.csv'' ''prices.csv'')
    = ([''[Error] Failed to load and process data: '' @ quoted ''stock''],
       Inl (KeyError, quoted ''stock''))
   \<and> load_data example_env_mixed (example_analyzer ''news.csv'' ''prices.csv'')
    = ([''[Error] Failed to load and process data: Mixed timezones detected''],
       Inl (ValueError, ''Mixed timezones detected''))
   \<and> analyze_sentiment example_env (example_analyzer ''news.csv'' ''prices.csv'')
    = ([''[Error] Sentiment analysis failed: '' @ quoted ''NoneType'' @ '' object is not subscriptable''],
       Inl (TypeError, quoted ''NoneType'' @ '' object is not subscriptable''))
   \<and> aggregate_sentiment example_unscored
    = ([''[Error] Failed to aggregate sentiment: '' @ quoted ''Column not found: sentiment''],
       Inl (KeyError, quoted ''Column not found: sentiment''))
   \<and> calculate_returns example_env (example_analyzer ''news.csv'' ''prices.csv'')
    = ([''[Error] Failed to compute daily returns: ''
          @ quoted ''NoneType'' @ '' object has no attribute '' @ quoted ''sort_values''],
       Inl (AttributeError, quoted ''NoneType'' @ '' object has no attribute '' @ quoted ''sort_values''))
   \<and> merge_data example_unscored
    = ([''[Error] Failed to aggregate sentiment: '' @ quoted ''Column not found: sentiment'',
        ''[Error] Failed to merge sentiment and stock return data: ''
          @ quoted ''Column not found: sentiment''],
       Inl (KeyError, quoted ''Column not found: sentiment''))
   \<and> (\<exists>a'. load_data example_env (example_analyzer ''news.csv'' ''prices.csv'')
    = ([''[Debug] Unparsed news dates after fallback parsing: 1''], Inr a'))"
proof -
  let ?x = "(FileNotFoundError, ''[Errno 2] No such file or directory'')"
  let ?y = "(ValueError, ''Mixed timezones detected'')"
  let ?a = "example_analyzer ''missing.csv'' ''prices.csv''"
  let ?b = "example_analyzer ''noschema.csv'' ''prices.csv''"
  let ?c = "example_analyzer ''news.csv'' ''prices.csv''"
  let ?u = "example_unscored"
  let ?t = "\<lparr>n_date = [Some (2021, 1, 14, 0, 0, 0)], n_tz = None, n_headline = Some [''up''],
              n_sentiment = None :: real list option\<rparr>"
  let ?news = "[(''Ticker'', [''AAPL'']), (''Date'', [''2021-01-14''])]"
  let ?prices = "[(''Date'', [''2021-01-14'', ''2021-01-15'']), (''Close'', [''100'', ''110''])]"
  have r1: "read_csv example_env (news_path ?a) = Inl ?x"
    by (simp add: example_env_def example_files_def example_analyzer_def)
  have "read_csv example_env (news_path ?a) = Inl ?x \<longrightarrow>
      load_data example_env ?a = ([''[Error] Failed to load and process data: '' @ snd ?x], Inl ?x)"
    using analyzer_stages_reraise [where ev = example_env and a = ?a and out = "[]" and x = ?x
        and news = "[]" and prices = "[]" and st = "[]" and raw = "[]" and sraw = "[]"
        and zone = None and dates = "[]" and szone = None and sdates = "[]" and t = ?t
        and e = "example_eda []"]
    by - (elim conjE, assumption)
  from this r1 have one: "load_data example_env ?a
      = ([''[Error] Failed to load and process data: '' @ snd ?x], Inl ?x)"
    by (rule mp)
  have r2: "read_csv example_env (news_path ?b) = Inr ?news
      \<and> read_csv example_env (stock_path ?b) = Inr ?prices
      \<and> map_of (lower_columns ?news) ''stock'' = None"
    by (simp add: example_env_def example_files_def example_analyzer_def lower_columns_def
        lower_char_def)
  have "read_csv example_env (news_path ?b) = Inr ?news
      \<and> read_csv example_env (stock_path ?b) = Inr ?prices
      \<and> map_of (lower_columns ?news) ''stock'' = None \<longrightarrow>
      load_data example_env ?b
      = ([''[Error] Failed to load and process data: '' @ quoted ''stock''],
         Inl (KeyError, quoted ''stock''))"
    using analyzer_stages_reraise [where ev = example_env and a = ?b and out = "[]" and x = ?x
        and news = ?news and prices = ?prices and st = "[]" and raw = "[]" and sraw = "[]"
        and zone = None and dates = "[]" and szone = None and sdates = "[]" and t = ?t
        and e = "example_eda []"]
    by - (elim conjE, assumption)
  from this r2 have two: "load_data example_env ?b
      = ([''[Error] Failed to load and process data: '' @ quoted ''stock''],
         Inl (KeyError, quoted ''stock''))"
    by (rule mp)
  have b3: "load_data_body example_env_mixed ?c = ([], Inl ?y)"
    by (simp add: load_data_body_def example_env_mixed_def example_env_def example_files_def
        example_analyzer_def lower_columns_def lower_char_def column_def filter_rows_def
        normalize_news_dates_raises)
  have "load_data_body example_env_mixed ?c = ([], Inl ?y) \<longrightarrow>
      load_data example_env_mixed ?c
      = ([] @ [''[Error] Failed to load and process data: '' @ snd ?y], Inl ?y)"
    using analyzer_stages_reraise [where ev = example_env_mixed and a = ?c and out = "[]" and x = ?y
        and news = "[]" and prices = "[]" and st = "[]" and raw = "[]" and sraw = "[]"
        and zone = None and dates = "[]" and szone = None and sdates = "[]" and t = ?t
        and e = "example_eda []"]
    by - (elim conjE, assumption)
  from this b3 have three: "load_data example_env_mixed ?c
      = ([] @ [''[Error] Failed to load and process data: '' @ snd ?y], Inl ?y)"
    by (rule mp)
  have n: "news_df ?c = None" and s: "stock_df ?c = None"
    by (simp_all add: example_analyzer_def)
  have "news_df ?c = None \<longrightarrow> analyze_sentiment example_env ?c
    = ([''[Error] Sentiment analysis failed: '' @ quoted ''NoneType'' @ '' object is not subscriptable''],
       Inl (TypeError, quoted ''NoneType'' @ '' object is not subscriptable''))"
    using analyzer_stages_reraise [where ev = example_env and a = ?c and out = "[]" and x = ?x
        and news = "[]" and prices = "[]" and st = "[]" and raw = "[]" and sraw = "[]"
        and zone = None and dates = "[]" and szone = None and sdates = "[]" and t = ?t
        and e = "example_eda []"]
    by - (elim conjE, assumption)
  from this n have four: "analyze_sentiment example_env ?c
    = ([''[Error] Sentiment analysis failed: '' @ quoted ''NoneType'' @ '' object is not subscriptable''],
       Inl (TypeError, quoted ''NoneType'' @ '' object is not subscriptable''))"
    by (rule mp)
  have "stock_df ?c = None \<longrightarrow> calculate_returns example_env ?c
    = ([''[Error] Failed to compute daily returns: ''
          @ quoted ''NoneType'' @ '' object has no attribute '' @ quoted ''sort_values''],
       Inl (AttributeError, quoted ''NoneType'' @ '' object has no attribute '' @ quoted ''sort_values''))"
    using analyzer_stages_reraise [where ev = example_env and a = ?c and out = "[]" and x = ?x
        and news = "[]" and prices = "[]" and st = "[]" and raw = "[]" and sraw = "[]"
        and zone = None and dates = "[]" and szone = None and sdates = "[]" and t = ?t
        and e = "example_eda []"]
    by - (elim conjE, assumption)
  from this s have six: "calculate_returns example_env ?c
    = ([''[Error] Failed to compute daily returns: ''
          @ quoted ''NoneType'' @ '' object has no attribute '' @ quoted ''sort_values''],
       Inl (AttributeError, quoted ''NoneType'' @ '' object has no attribute '' @ quoted ''sort_values''))"
    by (rule mp)
  have u: "news_df ?u = Some ?t \<and> n_sentiment ?t = None"
    by (simp add: example_unscored_def example_state_def)
  have "news_df ?u = Some ?t \<and> n_sentiment ?t = None \<longrightarrow> aggregate_sentiment ?u
    = ([''[Error] Failed to aggregate sentiment: '' @ quoted ''Column not found: sentiment''],
       Inl (KeyError, quoted ''Column not found: sentiment''))"
    using analyzer_stages_reraise [where ev = example_env and a = ?u and out = "[]" and x = ?x
        and news = "[]" and prices = "[]" and st = "[]" and raw = "[]" and sraw = "[]"
        and zone = None and dates = "[]" and szone = None and sdates = "[]" and t = ?t
        and e = "example_eda []"]
    by - (elim conjE, assumption)
  from this u have five: "aggregate_sentiment ?u
    = ([''[Error] Failed to aggregate sentiment: '' @ quoted ''Column not found: sentiment''],
       Inl (KeyError, quoted ''Column not found: sentiment''))"
    by (rule mp)
  have "news_df ?u = Some ?t \<and> n_sentiment ?t = None \<longrightarrow> merge_data ?u
    = ([''[Error] Failed to aggregate sentiment: '' @ quoted ''Column not found: sentiment'',
        ''[Error] Failed to merge sentiment and stock return data: ''
          @ quoted ''Column not found: sentiment''],
       Inl (KeyError, quoted ''Column not found: sentiment''))"
    using analyzer_stages_reraise [where ev = example_env and a = ?u and out = "[]" and x = ?x
        and news = "[]" and prices = "[]" and st = "[]" and raw = "[]" and sraw = "[]"
        and zone = None and dates = "[]" and szone = None and sdates = "[]" and t = ?t
        and e = "example_eda []"]
    by - (elim conjE, assumption)
  from this u have seven: "merge_data ?u
    = ([''[Error] Failed to aggregate sentiment: '' @ quoted ''Column not found: sentiment'',
        ''[Error] Failed to merge sentiment and stock return data: ''
          @ quoted ''Column not found: sentiment''],
       Inl (KeyError, quoted ''Column not found: sentiment''))"
    by (rule mp)
  have eight: "\<exists>a'. load_data example_env ?c
      = ([''[Debug] Unparsed news dates after fallback parsing: 1''], Inr a')"
    using example_load_ok by simp
  have one': "load_data example_env ?a
    = ([''[Error] Failed to load and process data: [Errno 2] No such file or directory''],
       Inl (FileNotFoundError, ''[Errno 2] No such file or directory''))"
    using one by simp
  have three': "load_data example_env_mixed ?c
    = ([''[Error] Failed to load and process data: Mixed timezones detected''],
       Inl (ValueError, ''Mixed timezones detected''))"
    using three by simp
  show ?thesis
    by (intro conjI) (rule one', rule two, rule three', rule four, rule five, rule six,
      rule seven, rule eight)
qed

text \<open>
  Claim C9 as stated fails for \<open>EdaAnalysis.load_data\<close>: when the file is missing, the
  method prints one line and returns normally, with the object as it was; the exception is
  not passed on.
\<close>

theorem eda_load_data_swallows_counterexample:
  "eda_load_data example_env (example_eda ''missing.csv'')
     = ([''File not found. Check the relative path.''], Inr (example_eda ''missing.csv''))"
  by (simp add: eda_load_data_def eda_load_body_def example_env_def example_files_def
      example_eda_def)

end
